theory Spec2Isabelle
  imports Main "HOL-Library.Word"
begin

section \<open>Outcomes of a call across the C boundary\<close>

text \<open>
  An exported function either returns a value, or ends the process through
  \<^verbatim>\<open>llvm::report_fatal_error\<close> with a diagnostic message, or steps outside what C++
  defines (a null or out-of-range pointer is dereferenced, an unchecked cast is applied
  to a value of another class).  Each of the three is a value of the model.

  A handle is modelled by the object it refers to: handles are not null and refer to
  live objects, and \<^verbatim>\<open>new\<close> always has memory to allocate from.
\<close>

datatype 'a outcome = Returns 'a | FatalError string | UndefinedBehaviour

text \<open>
  A function that mutates the object behind a handle takes the object and returns it
  updated, next to the value it returns.  \<open>repeat_calls f n s\<close> calls \<open>f\<close> on the same
  object \<open>n\<close> times in a row and collects what each call returned; it stops at the first
  call that does not return.
\<close>

fun repeat_calls :: "('s \<Rightarrow> ('r \<times> 's) outcome) \<Rightarrow> nat \<Rightarrow> 's \<Rightarrow> ('r list \<times> 's) outcome" where
  "repeat_calls f 0 s = Returns ([], s)"
| "repeat_calls f (Suc n) s =
     (case f s of
        Returns (r, s') \<Rightarrow>
          (case repeat_calls f n s' of
             Returns (rs, s'') \<Rightarrow> Returns (r # rs, s'')
           | FatalError m \<Rightarrow> FatalError m
           | UndefinedBehaviour \<Rightarrow> UndefinedBehaviour)
      | FatalError m \<Rightarrow> FatalError m
      | UndefinedBehaviour \<Rightarrow> UndefinedBehaviour)"

section \<open>Attributes, attribute sets and attribute lists (attribute.cpp)\<close>

text \<open>
  Modelled from the spec: the attribute class of the native library is not under the
  sources; the glossary classifies an attribute as enum-valued, integer-valued,
  type-valued or string-valued, and section 4.1 says that an attribute has exactly one
  underlying kind internally.  An attribute is therefore a value carrying its one storage
  kind, together with its string form.
\<close>

datatype storage_kind = EnumKind | IntKind | TypeKind | StringKind

record Attribute =
  attr_kind :: storage_kind
  attr_string :: string

definition isTypeAttribute :: "Attribute \<Rightarrow> bool" where
  "isTypeAttribute attr = (attr_kind attr = TypeKind)"

definition isIntAttribute :: "Attribute \<Rightarrow> bool" where
  "isIntAttribute attr = (attr_kind attr = IntKind)"

definition isEnumAttribute :: "Attribute \<Rightarrow> bool" where
  "isEnumAttribute attr = (attr_kind attr = EnumKind)"

definition isStringAttribute :: "Attribute \<Rightarrow> bool" where
  "isStringAttribute attr = (attr_kind attr = StringKind)"

text \<open>
  The four classification queries take an attribute handle that refers to an attribute,
  unwrap it and forward to the attribute's own query.
\<close>

definition LLVMPY_AttributeIsType :: "Attribute \<Rightarrow> bool" where
  "LLVMPY_AttributeIsType A = (let attr = A in isTypeAttribute attr)"

definition LLVMPY_AttributeIsInt :: "Attribute \<Rightarrow> bool" where
  "LLVMPY_AttributeIsInt A = (let attr = A in isIntAttribute attr)"

definition LLVMPY_AttributeIsEnum :: "Attribute \<Rightarrow> bool" where
  "LLVMPY_AttributeIsEnum A = (let attr = A in isEnumAttribute attr)"

definition LLVMPY_AttributeIsString :: "Attribute \<Rightarrow> bool" where
  "LLVMPY_AttributeIsString A = (let attr = A in isStringAttribute attr)"

text \<open>
  An attribute set is the array of the attributes at one index; an attribute list is the
  array of the attribute sets (the attribute groups) of one entity.
\<close>

type_synonym AttributeSet = "Attribute list"
type_synonym AttributeList = "AttributeSet list"

text \<open>
  The native iterators are pointers into these arrays.  A pointer is the array it points
  into and a position; \<open>begin\<close> is position 0 and \<open>end\<close> is one past the last element.
  Reading through a pointer that is not at an element of its array is not defined.
\<close>

type_synonym 'a const_iterator = "'a list \<times> nat"

definition array_begin :: "'a list \<Rightarrow> 'a const_iterator" where
  "array_begin xs = (xs, 0)"

definition array_end :: "'a list \<Rightarrow> 'a const_iterator" where
  "array_end xs = (xs, length xs)"

definition deref :: "'a const_iterator \<Rightarrow> 'a option" where
  "deref p = (case p of (mem, i) \<Rightarrow> if i < length mem then Some (mem ! i) else None)"

definition incr :: "'a const_iterator \<Rightarrow> 'a const_iterator" where
  "incr p = (case p of (mem, i) \<Rightarrow> (mem, Suc i))"

text \<open>The two cursor structs: the current position and the stop condition.\<close>

record AttributeListIterator =
  list_cur :: "AttributeSet const_iterator"
  list_end :: "AttributeSet const_iterator"

record AttributeSetIterator =
  set_cur :: "Attribute const_iterator"
  set_end :: "Attribute const_iterator"

definition new_AttributeListIterator ::
  "AttributeSet const_iterator \<Rightarrow> AttributeSet const_iterator \<Rightarrow> AttributeListIterator" where
  "new_AttributeListIterator c e = \<lparr>list_cur = c, list_end = e\<rparr>"

definition new_AttributeSetIterator ::
  "Attribute const_iterator \<Rightarrow> Attribute const_iterator \<Rightarrow> AttributeSetIterator" where
  "new_AttributeSetIterator c e = \<lparr>set_cur = c, set_end = e\<rparr>"

subsection \<open>Values behind an opaque value handle\<close>

record llvm_function =
  fn_name :: string
  fn_attributes :: AttributeList

text \<open>A basic block knows the function it is part of, if any, by that function's name.\<close>

record basic_block =
  bb_name :: string
  bb_parent :: "string option"

record global_variable =
  gv_name :: string
  gv_attributes :: AttributeSet

datatype llvm_value =
    FunctionVal llvm_function
  | BasicBlockVal basic_block
  | GlobalVariableVal global_variable
  | OtherVal string

text \<open>
  \<^verbatim>\<open>unwrap<T>\<close> is an unchecked cast: applied to a value of another class it is not
  defined.
\<close>

definition unwrap_Function :: "llvm_value \<Rightarrow> llvm_function outcome" where
  "unwrap_Function V = (case V of FunctionVal f \<Rightarrow> Returns f | _ \<Rightarrow> UndefinedBehaviour)"

definition unwrap_GlobalVariable :: "llvm_value \<Rightarrow> global_variable outcome" where
  "unwrap_GlobalVariable V =
     (case V of GlobalVariableVal g \<Rightarrow> Returns g | _ \<Rightarrow> UndefinedBehaviour)"

subsection \<open>Creating and advancing the cursors\<close>

definition LLVMPY_FunctionAttributesIter :: "llvm_value \<Rightarrow> AttributeListIterator outcome" where
  "LLVMPY_FunctionAttributesIter F =
     (case unwrap_Function F of
        Returns func \<Rightarrow>
          (let attrs = fn_attributes func
           in Returns (new_AttributeListIterator (array_begin attrs) (array_end attrs)))
      | FatalError m \<Rightarrow> FatalError m
      | UndefinedBehaviour \<Rightarrow> UndefinedBehaviour)"

definition LLVMPY_GlobalAttributesIter :: "llvm_value \<Rightarrow> AttributeSetIterator outcome" where
  "LLVMPY_GlobalAttributesIter G =
     (case unwrap_GlobalVariable G of
        Returns g \<Rightarrow>
          (let attrs = gv_attributes g
           in Returns (new_AttributeSetIterator (array_begin attrs) (array_end attrs)))
      | FatalError m \<Rightarrow> FatalError m
      | UndefinedBehaviour \<Rightarrow> UndefinedBehaviour)"

text \<open>
  Advancing returns the null reference (\<open>None\<close>) at the end and leaves the cursor as it
  is; before the end it reads the element at the current position, moves the cursor on by
  one and returns a new set-level cursor over that element (list level) or the attribute
  itself (set level).
\<close>

definition LLVMPY_AttributeListIterNext ::
  "AttributeListIterator \<Rightarrow> (AttributeSetIterator option \<times> AttributeListIterator) outcome" where
  "LLVMPY_AttributeListIterNext iter =
     (if list_cur iter \<noteq> list_end iter then
        (case deref (list_cur iter) of
           None \<Rightarrow> UndefinedBehaviour
         | Some attrs \<Rightarrow>
             Returns (Some (new_AttributeSetIterator (array_begin attrs) (array_end attrs)),
                      iter\<lparr>list_cur := incr (list_cur iter)\<rparr>))
      else Returns (None, iter))"

definition LLVMPY_AttributeSetIterNext ::
  "AttributeSetIterator \<Rightarrow> (Attribute option \<times> AttributeSetIterator) outcome" where
  "LLVMPY_AttributeSetIterNext iter =
     (if set_cur iter \<noteq> set_end iter then
        (case deref (set_cur iter) of
           None \<Rightarrow> UndefinedBehaviour
         | Some attr \<Rightarrow> Returns (Some attr, iter\<lparr>set_cur := incr (set_cur iter)\<rparr>))
      else Returns (None, iter))"

subsection \<open>Enum attribute kinds by name\<close>

text \<open>
  Modelled from the spec: the native library's registry of enum attribute names is not
  under the sources.  It is taken as a table from registered names to their numeric
  kinds; the lookup returns zero when there is no match (the comment in the source says
  so as well).  The name is passed as a buffer and a length: the string looked up is the
  first \<open>len\<close> bytes of the buffer, and a length beyond the buffer reads out of bounds.
\<close>

type_synonym enum_attr_table = "(string \<times> 32 word) list"

definition LLVMGetEnumAttributeKindForName :: "enum_attr_table \<Rightarrow> string \<Rightarrow> 32 word" where
  "LLVMGetEnumAttributeKindForName table s =
     (case map_of table s of None \<Rightarrow> 0 | Some kind \<Rightarrow> kind)"

definition LLVMPY_GetEnumAttributeKindForName ::
  "enum_attr_table \<Rightarrow> string \<Rightarrow> nat \<Rightarrow> (32 word) outcome" where
  "LLVMPY_GetEnumAttributeKindForName table name len =
     (if len \<le> length name
      then Returns (LLVMGetEnumAttributeKindForName table (take len name))
      else UndefinedBehaviour)"

section \<open>The pass-manager builder (transforms.cpp)\<close>

text \<open>
  Modelled from the spec: the declaration of the native pass-manager builder is not under
  the sources.  Section 3 of the spec lists its properties as mutable fields: optimization
  level, size level, vectorization toggles and the unroll-disable flag.  The two levels
  are C \<^verbatim>\<open>unsigned\<close> values (32 bits), the toggles and the flag are booleans.  The
  accessors of the source pass the toggles and the flag as C \<^verbatim>\<open>int\<close> (32 bits, two's
  complement): storing an \<^verbatim>\<open>int\<close> into a boolean field keeps whether it is non-zero,
  and reading a boolean field as \<^verbatim>\<open>int\<close> gives 1 or 0.
\<close>

record PassManagerBuilder =
  OptLevel :: "32 word"
  SizeLevel :: "32 word"
  DisableUnrollLoops :: bool
  LoopVectorize :: bool
  SLPVectorize :: bool

definition int_to_bool :: "32 word \<Rightarrow> bool" where
  "int_to_bool Value = (Value \<noteq> 0)"

definition bool_to_int :: "bool \<Rightarrow> 32 word" where
  "bool_to_int b = (if b then 1 else 0)"

text \<open>The setters of the native C interface, to which three setters of the source forward.\<close>

definition LLVMPassManagerBuilderSetOptLevel :: "PassManagerBuilder \<Rightarrow> 32 word \<Rightarrow> PassManagerBuilder" where
  "LLVMPassManagerBuilderSetOptLevel PMB Level = PMB\<lparr>OptLevel := Level\<rparr>"

definition LLVMPassManagerBuilderSetSizeLevel :: "PassManagerBuilder \<Rightarrow> 32 word \<Rightarrow> PassManagerBuilder" where
  "LLVMPassManagerBuilderSetSizeLevel PMB Level = PMB\<lparr>SizeLevel := Level\<rparr>"

definition LLVMPassManagerBuilderSetDisableUnrollLoops ::
  "PassManagerBuilder \<Rightarrow> 32 word \<Rightarrow> PassManagerBuilder" where
  "LLVMPassManagerBuilderSetDisableUnrollLoops PMB Value =
     PMB\<lparr>DisableUnrollLoops := int_to_bool Value\<rparr>"

text \<open>The accessors of the source.  A setter returns the builder as it has updated it.\<close>

definition LLVMPY_PassManagerBuilderGetOptLevel :: "PassManagerBuilder \<Rightarrow> 32 word" where
  "LLVMPY_PassManagerBuilderGetOptLevel PMB = OptLevel PMB"

definition LLVMPY_PassManagerBuilderSetOptLevel ::
  "PassManagerBuilder \<Rightarrow> 32 word \<Rightarrow> PassManagerBuilder" where
  "LLVMPY_PassManagerBuilderSetOptLevel PMB Level = LLVMPassManagerBuilderSetOptLevel PMB Level"

definition LLVMPY_PassManagerBuilderGetSizeLevel :: "PassManagerBuilder \<Rightarrow> 32 word" where
  "LLVMPY_PassManagerBuilderGetSizeLevel PMB = SizeLevel PMB"

definition LLVMPY_PassManagerBuilderSetSizeLevel ::
  "PassManagerBuilder \<Rightarrow> 32 word \<Rightarrow> PassManagerBuilder" where
  "LLVMPY_PassManagerBuilderSetSizeLevel PMB Level = LLVMPassManagerBuilderSetSizeLevel PMB Level"

definition LLVMPY_PassManagerBuilderGetDisableUnrollLoops :: "PassManagerBuilder \<Rightarrow> 32 word" where
  "LLVMPY_PassManagerBuilderGetDisableUnrollLoops PMB = bool_to_int (DisableUnrollLoops PMB)"

definition LLVMPY_PassManagerBuilderSetDisableUnrollLoops ::
  "PassManagerBuilder \<Rightarrow> 32 word \<Rightarrow> PassManagerBuilder" where
  "LLVMPY_PassManagerBuilderSetDisableUnrollLoops PMB Value =
     LLVMPassManagerBuilderSetDisableUnrollLoops PMB Value"

definition LLVMPY_PassManagerBuilderSetLoopVectorize ::
  "PassManagerBuilder \<Rightarrow> 32 word \<Rightarrow> PassManagerBuilder" where
  "LLVMPY_PassManagerBuilderSetLoopVectorize PMB Value =
     PMB\<lparr>LoopVectorize := int_to_bool Value\<rparr>"

definition LLVMPY_PassManagerBuilderGetLoopVectorize :: "PassManagerBuilder \<Rightarrow> 32 word" where
  "LLVMPY_PassManagerBuilderGetLoopVectorize PMB = bool_to_int (LoopVectorize PMB)"

definition LLVMPY_PassManagerBuilderSetSLPVectorize ::
  "PassManagerBuilder \<Rightarrow> 32 word \<Rightarrow> PassManagerBuilder" where
  "LLVMPY_PassManagerBuilderSetSLPVectorize PMB Value =
     PMB\<lparr>SLPVectorize := int_to_bool Value\<rparr>"

definition LLVMPY_PassManagerBuilderGetSLPVectorize :: "PassManagerBuilder \<Rightarrow> 32 word" where
  "LLVMPY_PassManagerBuilderGetSLPVectorize PMB = bool_to_int (SLPVectorize PMB)"

section \<open>Extracting a basic block (transforms.cpp)\<close>

text \<open>
  \<^verbatim>\<open>dyn_cast<T>\<close> is the checked cast: it yields the null pointer for a value of another
  class.
\<close>

definition dyn_cast_Function :: "llvm_value \<Rightarrow> llvm_function option" where
  "dyn_cast_Function V = (case V of FunctionVal f \<Rightarrow> Some f | _ \<Rightarrow> None)"

definition dyn_cast_BasicBlock :: "llvm_value \<Rightarrow> basic_block option" where
  "dyn_cast_BasicBlock V = (case V of BasicBlockVal b \<Rightarrow> Some b | _ \<Rightarrow> None)"

text \<open>A block is part of a function when the function is the block's parent.\<close>

definition is_part_of :: "basic_block \<Rightarrow> llvm_function \<Rightarrow> bool" where
  "is_part_of BB Fn = (bb_parent BB = Some (fn_name Fn))"

text \<open>\<^verbatim>\<open>std::to_string\<close> on a line number: its decimal digits.\<close>

fun to_string :: "nat \<Rightarrow> string" where
  "to_string n =
     (if n < 10 then [char_of (48 + n)]
      else to_string (n div 10) @ [char_of (48 + n mod 10)])"

declare to_string.simps [simp del]

definition std_replace :: "string \<Rightarrow> char \<Rightarrow> char \<Rightarrow> string" where
  "std_replace s old_value new_value = map (\<lambda>c. if c = old_value then new_value else c) s"

text \<open>Reading the name of a function reads its name field.\<close>

definition getName :: "llvm_function \<Rightarrow> string" where
  "getName f = fn_name f"

text \<open>
  The extraction context as the source builds it.  The four analyses are null pointers
  (\<open>None\<close>).
\<close>

record CodeExtractor =
  Blocks :: "basic_block list"
  DominatorTree :: "unit option"
  AggregateArgs :: bool
  BlockFrequencyInfo :: "unit option"
  BranchProbabilityInfo :: "unit option"
  AssumptionCache :: "unit option"
  AllowVarArgs :: bool
  AllowAlloca :: bool
  Suffix :: string

definition single_block_extractor :: "basic_block \<Rightarrow> CodeExtractor" where
  "single_block_extractor BB =
     \<lparr>Blocks = [BB], DominatorTree = None, AggregateArgs = False,
      BlockFrequencyInfo = None, BranchProbabilityInfo = None, AssumptionCache = None,
      AllowVarArgs = False, AllowAlloca = True, Suffix = ''bblock_extract''\<rparr>"

text \<open>
  The extraction itself belongs to the native library and is a parameter of the model:
  \<open>extractCodeRegion Extractor Fn\<close> is what the library yields for the extraction context
  \<open>Extractor\<close> and the analysis cache built from the function \<open>Fn\<close>, the outlined
  function or the null pointer (\<open>None\<close>) when the region is not eligible.  Naming a
  value belongs to the native library as well and is the second parameter:
  \<open>setName f n\<close> is the function \<open>f\<close> after the library was asked to name it \<open>n\<close>.  The
  library keeps the names of a module's values distinct: a name that no other value of
  the module has is stored as it is given, and a name that is taken is stored with a dot
  and a number after it.  \<open>FILE\<close> is the
  path under which the compiler saw the source file; the two line numbers are those of
  the two uses of the line macro in the source.  \<open>FuncRef\<close> and \<open>BBlockRef\<close> are the
  source's parameters \<^verbatim>\<open>Func\<close> and \<^verbatim>\<open>BBlock\<close>.

  The source reads the name of the outlined function, and writes the sanitized name
  back, through the pointer it got from the extractor, and compares that pointer with
  null only afterwards.
\<close>

definition LLVMPY_ExtractBasicBlock ::
  "string \<Rightarrow> (CodeExtractor \<Rightarrow> llvm_function \<Rightarrow> llvm_function option) \<Rightarrow>
   (llvm_function \<Rightarrow> string \<Rightarrow> llvm_function) \<Rightarrow>
   llvm_value \<Rightarrow> llvm_value \<Rightarrow> llvm_value outcome" where
  "LLVMPY_ExtractBasicBlock FILE extractCodeRegion setName FuncRef BBlockRef =
     (case dyn_cast_Function FuncRef of
        None \<Rightarrow> FatalError (FILE @ '':'' @ to_string 110 @ ''Expected function'')
      | Some Fn \<Rightarrow>
          (case dyn_cast_BasicBlock BBlockRef of
             None \<Rightarrow> FatalError (FILE @ '':'' @ to_string 117 @ ''Expected basic block'')
           | Some BB \<Rightarrow>
               (let CEAC = Fn;
                    Extractor = single_block_extractor BB;
                    Outlined = extractCodeRegion Extractor CEAC
                in case Outlined of
                     None \<Rightarrow> UndefinedBehaviour
                   | Some outlined \<Rightarrow>
                       (let FnName = getName outlined;
                            FnName = std_replace FnName (CHR ''.'') (CHR ''_'');
                            Outlined = Some (setName outlined FnName)
                        in case Outlined of
                             None \<Rightarrow> FatalError ''extractCodeRegion failed, not eligible''
                           | Some f \<Rightarrow> Returns (FunctionVal f)))))"

section \<open>Lemmas about the definitions\<close>

lemma repeat_calls_append:
  "repeat_calls f m s = Returns (rs, s') \<Longrightarrow> repeat_calls f n s' = Returns (rs', s'') \<Longrightarrow>
   repeat_calls f (m + n) s = Returns (rs @ rs', s'')"
proof (induction m arbitrary: s rs)
  case 0
  then show ?case by simp
next
  case (Suc m)
  from Suc.prems(1) obtain r t rs0 where
    step: "f s = Returns (r, t)" and rest: "repeat_calls f m t = Returns (rs0, s')"
    and rs: "rs = r # rs0"
    by (auto split: outcome.splits prod.splits)
  from Suc.IH [OF rest Suc.prems(2)] step rs show ?case by simp
qed

lemma set_iter_drain:
  "i \<le> length mem \<Longrightarrow>
   repeat_calls LLVMPY_AttributeSetIterNext (length mem - i)
       \<lparr>set_cur = (mem, i), set_end = (mem, length mem)\<rparr> =
     Returns (map Some (drop i mem), \<lparr>set_cur = (mem, length mem), set_end = (mem, length mem)\<rparr>)"
proof (induction "length mem - i" arbitrary: i)
  case 0
  then show ?case by simp
next
  case (Suc k)
  then have lt: "i < length mem" and k: "k = length mem - Suc i" and n: "length mem - i = Suc k"
    by simp_all
  have step: "LLVMPY_AttributeSetIterNext \<lparr>set_cur = (mem, i), set_end = (mem, length mem)\<rparr> =
      Returns (Some (mem ! i), \<lparr>set_cur = (mem, Suc i), set_end = (mem, length mem)\<rparr>)"
    using lt by (simp add: LLVMPY_AttributeSetIterNext_def deref_def incr_def)
  have rest: "repeat_calls LLVMPY_AttributeSetIterNext k
      \<lparr>set_cur = (mem, Suc i), set_end = (mem, length mem)\<rparr> =
      Returns (map Some (drop (Suc i) mem),
        \<lparr>set_cur = (mem, length mem), set_end = (mem, length mem)\<rparr>)"
    using Suc.hyps(1) [of "Suc i"] k lt by simp
  have "drop i mem = mem ! i # drop (Suc i) mem"
    using lt by (simp add: Cons_nth_drop_Suc)
  then show ?case using step rest n by simp
qed

lemma list_iter_drain:
  "i \<le> length mem \<Longrightarrow>
   repeat_calls LLVMPY_AttributeListIterNext (length mem - i)
       \<lparr>list_cur = (mem, i), list_end = (mem, length mem)\<rparr> =
     Returns (map (\<lambda>attrs. Some (new_AttributeSetIterator (array_begin attrs) (array_end attrs)))
                (drop i mem),
              \<lparr>list_cur = (mem, length mem), list_end = (mem, length mem)\<rparr>)"
proof (induction "length mem - i" arbitrary: i)
  case 0
  then show ?case by simp
next
  case (Suc k)
  then have lt: "i < length mem" and k: "k = length mem - Suc i" and n: "length mem - i = Suc k"
    by simp_all
  have step: "LLVMPY_AttributeListIterNext \<lparr>list_cur = (mem, i), list_end = (mem, length mem)\<rparr> =
      Returns (Some (new_AttributeSetIterator (array_begin (mem ! i)) (array_end (mem ! i))),
               \<lparr>list_cur = (mem, Suc i), list_end = (mem, length mem)\<rparr>)"
    using lt by (simp add: LLVMPY_AttributeListIterNext_def deref_def incr_def)
  have rest: "repeat_calls LLVMPY_AttributeListIterNext k
      \<lparr>list_cur = (mem, Suc i), list_end = (mem, length mem)\<rparr> =
      Returns (map (\<lambda>attrs. Some (new_AttributeSetIterator (array_begin attrs) (array_end attrs)))
                 (drop (Suc i) mem),
        \<lparr>list_cur = (mem, length mem), list_end = (mem, length mem)\<rparr>)"
    using Suc.hyps(1) [of "Suc i"] k lt by simp
  have "drop i mem = mem ! i # drop (Suc i) mem"
    using lt by (simp add: Cons_nth_drop_Suc)
  then show ?case using step rest n by simp
qed

lemma set_iter_at_end:
  "set_cur iter = set_end iter \<Longrightarrow> LLVMPY_AttributeSetIterNext iter = Returns (None, iter)"
  by (simp add: LLVMPY_AttributeSetIterNext_def)

lemma list_iter_at_end:
  "list_cur iter = list_end iter \<Longrightarrow> LLVMPY_AttributeListIterNext iter = Returns (None, iter)"
  by (simp add: LLVMPY_AttributeListIterNext_def)

lemma repeat_calls_fixed:
  "f s = Returns (r, s) \<Longrightarrow> repeat_calls f n s = Returns (replicate n r, s)"
  by (induction n) simp_all

lemma set_iter_fresh_calls:
  "repeat_calls LLVMPY_AttributeSetIterNext (Suc (length attrs))
       (new_AttributeSetIterator (array_begin attrs) (array_end attrs)) =
     Returns (map Some attrs @ [None],
              new_AttributeSetIterator (array_end attrs) (array_end attrs))"
proof -
  let ?fin = "\<lparr>set_cur = (attrs, length attrs), set_end = (attrs, length attrs)\<rparr>"
  have a: "repeat_calls LLVMPY_AttributeSetIterNext (length attrs)
      \<lparr>set_cur = (attrs, 0), set_end = (attrs, length attrs)\<rparr> = Returns (map Some attrs, ?fin)"
    using set_iter_drain [of 0 attrs] by simp
  have b: "repeat_calls LLVMPY_AttributeSetIterNext 1 ?fin = Returns ([None], ?fin)"
    by (simp add: set_iter_at_end)
  from repeat_calls_append [OF a b] show ?thesis
    by (simp add: new_AttributeSetIterator_def array_begin_def array_end_def)
qed

lemma list_iter_fresh_calls:
  "repeat_calls LLVMPY_AttributeListIterNext (Suc (length attrs))
       (new_AttributeListIterator (array_begin attrs) (array_end attrs)) =
     Returns (map (\<lambda>a. Some (new_AttributeSetIterator (array_begin a) (array_end a))) attrs @ [None],
              new_AttributeListIterator (array_end attrs) (array_end attrs))"
proof -
  let ?fin = "\<lparr>list_cur = (attrs, length attrs), list_end = (attrs, length attrs)\<rparr>"
  have a: "repeat_calls LLVMPY_AttributeListIterNext (length attrs)
      \<lparr>list_cur = (attrs, 0), list_end = (attrs, length attrs)\<rparr> =
      Returns (map (\<lambda>a. Some (new_AttributeSetIterator (array_begin a) (array_end a))) attrs, ?fin)"
    using list_iter_drain [of 0 attrs] by simp
  have b: "repeat_calls LLVMPY_AttributeListIterNext 1 ?fin = Returns ([None], ?fin)"
    by (simp add: list_iter_at_end)
  from repeat_calls_append [OF a b] show ?thesis
    by (simp add: new_AttributeListIterator_def array_begin_def array_end_def)
qed

lemma to_string_110: "to_string 110 = ''110''"
  by code_simp

lemma to_string_117: "to_string 117 = ''117''"
  by code_simp

lemma std_replace_removes: "old_value \<noteq> new_value \<Longrightarrow> old_value \<notin> set (std_replace s old_value new_value)"
  by (auto simp: std_replace_def)


lemma ExtractBasicBlock_null_extraction:
  "dyn_cast_Function FuncRef = Some Fn \<Longrightarrow> dyn_cast_BasicBlock BBlockRef = Some BB \<Longrightarrow>
   extractCodeRegion (single_block_extractor BB) Fn = None \<Longrightarrow>
   LLVMPY_ExtractBasicBlock FILE extractCodeRegion setName FuncRef BBlockRef = UndefinedBehaviour"
  by (simp add: LLVMPY_ExtractBasicBlock_def Let_def)

lemma ExtractBasicBlock_extracted:
  "dyn_cast_Function FuncRef = Some Fn \<Longrightarrow> dyn_cast_BasicBlock BBlockRef = Some BB \<Longrightarrow>
   extractCodeRegion (single_block_extractor BB) Fn = Some outlined \<Longrightarrow>
   LLVMPY_ExtractBasicBlock FILE extractCodeRegion setName FuncRef BBlockRef =
     Returns (FunctionVal (setName outlined (std_replace (getName outlined) (CHR ''.'') (CHR ''_''))))"
  by (simp add: LLVMPY_ExtractBasicBlock_def Let_def)

lemma ExtractBasicBlock_not_function:
  "dyn_cast_Function FuncRef = None \<Longrightarrow>
   LLVMPY_ExtractBasicBlock FILE extractCodeRegion setName FuncRef BBlockRef =
     FatalError (FILE @ '':110Expected function'')"
  by (simp add: LLVMPY_ExtractBasicBlock_def to_string_110)

lemma ExtractBasicBlock_not_block:
  "dyn_cast_Function FuncRef = Some Fn \<Longrightarrow> dyn_cast_BasicBlock BBlockRef = None \<Longrightarrow>
   LLVMPY_ExtractBasicBlock FILE extractCodeRegion setName FuncRef BBlockRef =
     FatalError (FILE @ '':117Expected basic block'')"
  by (simp add: LLVMPY_ExtractBasicBlock_def to_string_117)

lemma ExtractBasicBlock_Returns_cases:
  assumes "LLVMPY_ExtractBasicBlock FILE extractCodeRegion setName FuncRef BBlockRef = Returns V"
  obtains Fn BB outlined where
    "dyn_cast_Function FuncRef = Some Fn" "dyn_cast_BasicBlock BBlockRef = Some BB"
    "extractCodeRegion (single_block_extractor BB) Fn = Some outlined"
    "V = FunctionVal (setName outlined (std_replace (getName outlined) (CHR ''.'') (CHR ''_'')))"
  using assms
  by (auto simp: LLVMPY_ExtractBasicBlock_def Let_def split: option.splits)

section \<open>The claims\<close>

subsection \<open>Basic-block extraction\<close>

text \<open>
  Claim C1: when the extraction itself fails, that is, the region of the single block is
  not eligible and the extractor yields the null function, the call is to fail fatally
  with a diagnostic.  The source does not reach its diagnostic: it reads the name of the
  outlined function through the pointer it got (line 132) before it compares that pointer
  with null (line 137).  At a function \<open>f\<close> and its block \<open>entry\<close>, with an extractor
  that yields null, the call dereferences the null pointer; it neither ends in the fatal
  error nor returns, whatever the library does when it names a value.
\<close>

theorem ExtractBasicBlock_failed_extraction_not_fatal:
  "LLVMPY_ExtractBasicBlock ''ffi/transforms.cpp'' (\<lambda>Extractor CEAC. None) setName
      (FunctionVal \<lparr>fn_name = ''f'', fn_attributes = []\<rparr>)
      (BasicBlockVal \<lparr>bb_name = ''entry'', bb_parent = Some ''f''\<rparr>) = UndefinedBehaviour"
  by (simp add: ExtractBasicBlock_null_extraction dyn_cast_Function_def dyn_cast_BasicBlock_def)

text \<open>
  Claim C2, as amended: the source never compares the parent of the block with the
  function, so a basic block that is not part of the function is not rejected.  With a
  function behind the first handle and a basic block behind the second, of that function
  or of another, a call in which the extractor yields a function does not take the fatal
  path: it returns the outlined function.  With a function behind the first handle, the
  fatal path is taken when the second handle does not refer to a basic block.
\<close>

theorem ExtractBasicBlock_membership_not_checked:
  "(dyn_cast_Function FuncRef = Some Fn \<and> dyn_cast_BasicBlock BBlockRef = Some BB \<and>
    extractCodeRegion (single_block_extractor BB) Fn = Some outlined \<longrightarrow>
      LLVMPY_ExtractBasicBlock FILE extractCodeRegion setName FuncRef BBlockRef =
        Returns (FunctionVal (setName outlined (std_replace (getName outlined) (CHR ''.'') (CHR ''_''))))) \<and>
   (dyn_cast_Function FuncRef = Some Fn \<and> dyn_cast_BasicBlock BBlockRef = None \<longrightarrow>
      LLVMPY_ExtractBasicBlock FILE extractCodeRegion setName FuncRef BBlockRef =
        FatalError (FILE @ '':117Expected basic block''))"
  by (simp add: ExtractBasicBlock_extracted ExtractBasicBlock_not_block)

text \<open>
  The amended claim at a block of the function, at a block of another function and at a
  second handle that is no basic block.  No other value of the module has the names
  asked for, and the library stores them as they are given.
\<close>

theorem ExtractBasicBlock_membership_not_checked_witness:
  "LLVMPY_ExtractBasicBlock ''ffi/transforms.cpp''
      (\<lambda>Extractor CEAC. Some \<lparr>fn_name = ''f.bblock_extract'', fn_attributes = []\<rparr>)
      (\<lambda>f n. f\<lparr>fn_name := n\<rparr>)
      (FunctionVal \<lparr>fn_name = ''f'', fn_attributes = []\<rparr>)
      (BasicBlockVal \<lparr>bb_name = ''body'', bb_parent = Some ''f''\<rparr>) =
     Returns (FunctionVal \<lparr>fn_name = ''f_bblock_extract'', fn_attributes = []\<rparr>) \<and>
   is_part_of \<lparr>bb_name = ''body'', bb_parent = Some ''f''\<rparr> \<lparr>fn_name = ''f'', fn_attributes = []\<rparr> \<and>
   LLVMPY_ExtractBasicBlock ''ffi/transforms.cpp''
      (\<lambda>Extractor CEAC. Some \<lparr>fn_name = ''g.bblock_extract'', fn_attributes = []\<rparr>)
      (\<lambda>f n. f\<lparr>fn_name := n\<rparr>)
      (FunctionVal \<lparr>fn_name = ''f'', fn_attributes = []\<rparr>)
      (BasicBlockVal \<lparr>bb_name = ''body'', bb_parent = Some ''g''\<rparr>) =
     Returns (FunctionVal \<lparr>fn_name = ''g_bblock_extract'', fn_attributes = []\<rparr>) \<and>
   LLVMPY_ExtractBasicBlock ''ffi/transforms.cpp''
      (\<lambda>Extractor CEAC. Some \<lparr>fn_name = ''f.bblock_extract'', fn_attributes = []\<rparr>)
      (\<lambda>f n. f\<lparr>fn_name := n\<rparr>)
      (FunctionVal \<lparr>fn_name = ''f'', fn_attributes = []\<rparr>)
      (OtherVal ''i32 0'') =
     FatalError ''ffi/transforms.cpp:117Expected basic block''"
  using
    ExtractBasicBlock_membership_not_checked
      [of "FunctionVal \<lparr>fn_name = ''f'', fn_attributes = []\<rparr>"
          "\<lparr>fn_name = ''f'', fn_attributes = []\<rparr>"
          "BasicBlockVal \<lparr>bb_name = ''body'', bb_parent = Some ''f''\<rparr>"
          "\<lparr>bb_name = ''body'', bb_parent = Some ''f''\<rparr>"
          "\<lambda>Extractor CEAC. Some \<lparr>fn_name = ''f.bblock_extract'', fn_attributes = []\<rparr>"
          "\<lparr>fn_name = ''f.bblock_extract'', fn_attributes = []\<rparr>"
          "''ffi/transforms.cpp''"
          "\<lambda>f n. f\<lparr>fn_name := n\<rparr>"]
    ExtractBasicBlock_membership_not_checked
      [of "FunctionVal \<lparr>fn_name = ''f'', fn_attributes = []\<rparr>"
          "\<lparr>fn_name = ''f'', fn_attributes = []\<rparr>"
          "BasicBlockVal \<lparr>bb_name = ''body'', bb_parent = Some ''g''\<rparr>"
          "\<lparr>bb_name = ''body'', bb_parent = Some ''g''\<rparr>"
          "\<lambda>Extractor CEAC. Some \<lparr>fn_name = ''g.bblock_extract'', fn_attributes = []\<rparr>"
          "\<lparr>fn_name = ''g.bblock_extract'', fn_attributes = []\<rparr>"
          "''ffi/transforms.cpp''"
          "\<lambda>f n. f\<lparr>fn_name := n\<rparr>"]
    ExtractBasicBlock_membership_not_checked
      [of "FunctionVal \<lparr>fn_name = ''f'', fn_attributes = []\<rparr>"
          "\<lparr>fn_name = ''f'', fn_attributes = []\<rparr>"
          "OtherVal ''i32 0''"
          "\<lparr>bb_name = ''body'', bb_parent = Some ''f''\<rparr>"
          "\<lambda>Extractor CEAC. Some \<lparr>fn_name = ''f.bblock_extract'', fn_attributes = []\<rparr>"
          "\<lparr>fn_name = ''f.bblock_extract'', fn_attributes = []\<rparr>"
          "''ffi/transforms.cpp''"
          "\<lambda>f n. f\<lparr>fn_name := n\<rparr>"]
  by (simp add: is_part_of_def dyn_cast_Function_def dyn_cast_BasicBlock_def
      getName_def std_replace_def)

text \<open>
  The claim as it was stated fails: the block \<open>body\<close> is part of \<open>g\<close>, it is passed
  with the function \<open>f\<close>, the extractor yields the function outlined from the block, and
  the call returns.
\<close>

theorem ExtractBasicBlock_foreign_block_counterexample:
  "\<not> is_part_of \<lparr>bb_name = ''body'', bb_parent = Some ''g''\<rparr> \<lparr>fn_name = ''f'', fn_attributes = []\<rparr> \<and>
   LLVMPY_ExtractBasicBlock ''ffi/transforms.cpp''
      (\<lambda>Extractor CEAC. Some \<lparr>fn_name = ''g.bblock_extract'', fn_attributes = []\<rparr>)
      (\<lambda>f n. f\<lparr>fn_name := n\<rparr>)
      (FunctionVal \<lparr>fn_name = ''f'', fn_attributes = []\<rparr>)
      (BasicBlockVal \<lparr>bb_name = ''body'', bb_parent = Some ''g''\<rparr>) =
     Returns (FunctionVal \<lparr>fn_name = ''g_bblock_extract'', fn_attributes = []\<rparr>)"
  by (simp add: LLVMPY_ExtractBasicBlock_def Let_def is_part_of_def dyn_cast_Function_def
      dyn_cast_BasicBlock_def getName_def std_replace_def)

text \<open>
  Claim C3: when the first handle is not a function, or the second is not a basic block,
  the call ends the process in the fatal error and does not return.  The diagnostic is
  the path of the source file, a colon, the line of the failed check and the kind that
  was expected: \<open>Expected function\<close> at line 110 when the first handle is not a function
  (whatever the second is), \<open>Expected basic block\<close> at line 117 otherwise.
\<close>

theorem ExtractBasicBlock_kind_mismatch_fatal:
  "dyn_cast_Function FuncRef = None \<or> dyn_cast_BasicBlock BBlockRef = None \<Longrightarrow>
   LLVMPY_ExtractBasicBlock FILE extractCodeRegion setName FuncRef BBlockRef =
     (if dyn_cast_Function FuncRef = None
      then FatalError (FILE @ '':110Expected function'')
      else FatalError (FILE @ '':117Expected basic block''))"
  by (cases "dyn_cast_Function FuncRef")
     (auto simp: ExtractBasicBlock_not_function ExtractBasicBlock_not_block)

text \<open>A constant passed as the function, and a function passed as the basic block.\<close>

theorem ExtractBasicBlock_kind_mismatch_fatal_witness:
  "LLVMPY_ExtractBasicBlock ''ffi/transforms.cpp'' (\<lambda>Extractor CEAC. None)
      (\<lambda>f n. f\<lparr>fn_name := n\<rparr>)
      (OtherVal ''i32 0'') (BasicBlockVal \<lparr>bb_name = ''entry'', bb_parent = Some ''f''\<rparr>) =
     FatalError ''ffi/transforms.cpp:110Expected function'' \<and>
   LLVMPY_ExtractBasicBlock ''ffi/transforms.cpp'' (\<lambda>Extractor CEAC. None)
      (\<lambda>f n. f\<lparr>fn_name := n\<rparr>)
      (FunctionVal \<lparr>fn_name = ''f'', fn_attributes = []\<rparr>)
      (FunctionVal \<lparr>fn_name = ''f'', fn_attributes = []\<rparr>) =
     FatalError ''ffi/transforms.cpp:117Expected basic block''"
  using
    ExtractBasicBlock_kind_mismatch_fatal
      [of "OtherVal ''i32 0''" "BasicBlockVal \<lparr>bb_name = ''entry'', bb_parent = Some ''f''\<rparr>"
          "''ffi/transforms.cpp''" "\<lambda>Extractor CEAC. None" "\<lambda>f n. f\<lparr>fn_name := n\<rparr>"]
    ExtractBasicBlock_kind_mismatch_fatal
      [of "FunctionVal \<lparr>fn_name = ''f'', fn_attributes = []\<rparr>"
          "FunctionVal \<lparr>fn_name = ''f'', fn_attributes = []\<rparr>"
          "''ffi/transforms.cpp''" "\<lambda>Extractor CEAC. None" "\<lambda>f n. f\<lparr>fn_name := n\<rparr>"]
  by (simp add: dyn_cast_Function_def dyn_cast_BasicBlock_def)

text \<open>
  Claim C4: the name of the function a successful call returns is to contain no \<open>.\<close>.
  The source replaces every \<open>.\<close> of the extractor's name by \<open>_\<close> (its comment at
  lines 133 and 134 gives the purpose) and hands the result to the library, but it
  returns the function under the name the library then stores, which it does not look at
  again.  At a second extraction from the function \<open>f\<close> the module already has a
  function \<open>f_bblock_extract\<close>, left by the first: the extractor yields
  \<open>f.bblock_extract\<close>, the source asks for the name \<open>f_bblock_extract\<close>, the library
  finds it taken and stores \<open>f_bblock_extract.1\<close>, and the call returns a function
  whose name contains a \<open>.\<close>.
\<close>

theorem ExtractBasicBlock_second_extraction_name_has_dot:
  "LLVMPY_ExtractBasicBlock ''ffi/transforms.cpp''
      (\<lambda>Extractor CEAC. Some \<lparr>fn_name = ''f.bblock_extract'', fn_attributes = []\<rparr>)
      (\<lambda>f n. f\<lparr>fn_name := (if n \<in> set [''f'', ''f_bblock_extract''] then n @ ''.1'' else n)\<rparr>)
      (FunctionVal \<lparr>fn_name = ''f'', fn_attributes = []\<rparr>)
      (BasicBlockVal \<lparr>bb_name = ''body2'', bb_parent = Some ''f''\<rparr>) =
     Returns (FunctionVal \<lparr>fn_name = ''f_bblock_extract.1'', fn_attributes = []\<rparr>) \<and>
   CHR ''.'' \<in> set (getName \<lparr>fn_name = ''f_bblock_extract.1'', fn_attributes = []\<rparr>)"
  by (simp add: LLVMPY_ExtractBasicBlock_def Let_def dyn_cast_Function_def
      dyn_cast_BasicBlock_def getName_def std_replace_def)

subsection \<open>Cursors\<close>

text \<open>
  Claim C5: for a function whose attribute list has N attribute groups, the cursor that
  \<open>LLVMPY_FunctionAttributesIter\<close> creates is advanced N + 1 times in a row.  All the
  calls return; the first N return a set-level cursor each (over the groups in their
  order), and call N + 1 returns null.
\<close>

theorem AttributeListIter_yields_N_then_null:
  "LLVMPY_FunctionAttributesIter (FunctionVal func) =
     Returns (new_AttributeListIterator (array_begin (fn_attributes func))
                                        (array_end (fn_attributes func))) \<and>
   repeat_calls LLVMPY_AttributeListIterNext (Suc (length (fn_attributes func)))
       (new_AttributeListIterator (array_begin (fn_attributes func))
                                  (array_end (fn_attributes func))) =
     Returns (map (\<lambda>attrs. Some (new_AttributeSetIterator (array_begin attrs) (array_end attrs)))
                (fn_attributes func) @ [None],
              new_AttributeListIterator (array_end (fn_attributes func))
                                        (array_end (fn_attributes func)))"
proof
  show "LLVMPY_FunctionAttributesIter (FunctionVal func) =
     Returns (new_AttributeListIterator (array_begin (fn_attributes func))
                                        (array_end (fn_attributes func)))"
    by (simp add: LLVMPY_FunctionAttributesIter_def unwrap_Function_def Let_def)
next
  show "repeat_calls LLVMPY_AttributeListIterNext (Suc (length (fn_attributes func)))
       (new_AttributeListIterator (array_begin (fn_attributes func))
                                  (array_end (fn_attributes func))) =
     Returns (map (\<lambda>attrs. Some (new_AttributeSetIterator (array_begin attrs) (array_end attrs)))
                (fn_attributes func) @ [None],
              new_AttributeListIterator (array_end (fn_attributes func))
                                        (array_end (fn_attributes func)))"
    by (rule list_iter_fresh_calls)
qed

text \<open>A function with two attribute groups, the second one empty.\<close>

theorem AttributeListIter_yields_N_then_null_witness:
  "repeat_calls LLVMPY_AttributeListIterNext 3
       (new_AttributeListIterator
          (array_begin [[\<lparr>attr_kind = EnumKind, attr_string = ''noinline''\<rparr>], []])
          (array_end [[\<lparr>attr_kind = EnumKind, attr_string = ''noinline''\<rparr>], []])) =
     Returns ([Some (new_AttributeSetIterator
                       (array_begin [\<lparr>attr_kind = EnumKind, attr_string = ''noinline''\<rparr>])
                       (array_end [\<lparr>attr_kind = EnumKind, attr_string = ''noinline''\<rparr>])),
               Some (new_AttributeSetIterator (array_begin []) (array_end [])),
               None],
              new_AttributeListIterator
                (array_end [[\<lparr>attr_kind = EnumKind, attr_string = ''noinline''\<rparr>], []])
                (array_end [[\<lparr>attr_kind = EnumKind, attr_string = ''noinline''\<rparr>], []]))"
  using AttributeListIter_yields_N_then_null
    [of "\<lparr>fn_name = ''f'',
          fn_attributes = [[\<lparr>attr_kind = EnumKind, attr_string = ''noinline''\<rparr>], []]\<rparr>"]
  by (simp add: numeral_3_eq_3)

text \<open>
  Claim C6: a freshly created set-level cursor over an attribute set with M attributes
  (as \<open>LLVMPY_GlobalAttributesIter\<close> and the list-level advance create it) is advanced
  M + 1 times in a row.  All the calls return; the first M return the attributes of the
  set in their order, none of them null, and call M + 1 returns null.
\<close>

theorem AttributeSetIter_yields_M_then_null:
  "repeat_calls LLVMPY_AttributeSetIterNext (Suc (length attrs))
       (new_AttributeSetIterator (array_begin attrs) (array_end attrs)) =
     Returns (map Some attrs @ [None],
              new_AttributeSetIterator (array_end attrs) (array_end attrs)) \<and>
   LLVMPY_GlobalAttributesIter (GlobalVariableVal g) =
     Returns (new_AttributeSetIterator (array_begin (gv_attributes g)) (array_end (gv_attributes g)))"
  by (simp add: set_iter_fresh_calls LLVMPY_GlobalAttributesIter_def unwrap_GlobalVariable_def
      Let_def del: repeat_calls.simps)

text \<open>An attribute set with two attributes.\<close>

theorem AttributeSetIter_yields_M_then_null_witness:
  "repeat_calls LLVMPY_AttributeSetIterNext 3
       (new_AttributeSetIterator
          (array_begin [\<lparr>attr_kind = EnumKind, attr_string = ''nonnull''\<rparr>,
                        \<lparr>attr_kind = IntKind, attr_string = ''align 8''\<rparr>])
          (array_end [\<lparr>attr_kind = EnumKind, attr_string = ''nonnull''\<rparr>,
                      \<lparr>attr_kind = IntKind, attr_string = ''align 8''\<rparr>])) =
     Returns ([Some \<lparr>attr_kind = EnumKind, attr_string = ''nonnull''\<rparr>,
               Some \<lparr>attr_kind = IntKind, attr_string = ''align 8''\<rparr>,
               None],
              new_AttributeSetIterator
                (array_end [\<lparr>attr_kind = EnumKind, attr_string = ''nonnull''\<rparr>,
                            \<lparr>attr_kind = IntKind, attr_string = ''align 8''\<rparr>])
                (array_end [\<lparr>attr_kind = EnumKind, attr_string = ''nonnull''\<rparr>,
                            \<lparr>attr_kind = IntKind, attr_string = ''align 8''\<rparr>]))"
  using AttributeSetIter_yields_M_then_null
    [of "[\<lparr>attr_kind = EnumKind, attr_string = ''nonnull''\<rparr>,
          \<lparr>attr_kind = IntKind, attr_string = ''align 8''\<rparr>]"]
  by (simp add: numeral_3_eq_3 del: repeat_calls.simps)

subsection \<open>Pass-manager builder\<close>

text \<open>
  Claim C7, as amended: for every builder and every value, setting the optimization
  level or the size level and then getting it returns exactly the value set.  Loop
  vectorize, SLP vectorize and disable-unroll-loops are boolean fields: after setting a
  value the getter returns 1 when the value is not zero and 0 when it is zero, which is
  the value set if and only if that value is 0 or 1.
\<close>

theorem PassManagerBuilder_set_get:
  "LLVMPY_PassManagerBuilderGetOptLevel (LLVMPY_PassManagerBuilderSetOptLevel PMB u) = u \<and>
   LLVMPY_PassManagerBuilderGetSizeLevel (LLVMPY_PassManagerBuilderSetSizeLevel PMB u) = u \<and>
   LLVMPY_PassManagerBuilderGetLoopVectorize (LLVMPY_PassManagerBuilderSetLoopVectorize PMB v) =
     (if v = 0 then 0 else 1) \<and>
   LLVMPY_PassManagerBuilderGetSLPVectorize (LLVMPY_PassManagerBuilderSetSLPVectorize PMB v) =
     (if v = 0 then 0 else 1) \<and>
   LLVMPY_PassManagerBuilderGetDisableUnrollLoops
       (LLVMPY_PassManagerBuilderSetDisableUnrollLoops PMB v) =
     (if v = 0 then 0 else 1) \<and>
   ((LLVMPY_PassManagerBuilderGetLoopVectorize (LLVMPY_PassManagerBuilderSetLoopVectorize PMB v) = v)
      = (v = 0 \<or> v = 1)) \<and>
   ((LLVMPY_PassManagerBuilderGetSLPVectorize (LLVMPY_PassManagerBuilderSetSLPVectorize PMB v) = v)
      = (v = 0 \<or> v = 1)) \<and>
   ((LLVMPY_PassManagerBuilderGetDisableUnrollLoops
       (LLVMPY_PassManagerBuilderSetDisableUnrollLoops PMB v) = v)
      = (v = 0 \<or> v = 1))"
  by (auto simp: LLVMPY_PassManagerBuilderGetOptLevel_def LLVMPY_PassManagerBuilderSetOptLevel_def
      LLVMPassManagerBuilderSetOptLevel_def
      LLVMPY_PassManagerBuilderGetSizeLevel_def LLVMPY_PassManagerBuilderSetSizeLevel_def
      LLVMPassManagerBuilderSetSizeLevel_def
      LLVMPY_PassManagerBuilderGetLoopVectorize_def LLVMPY_PassManagerBuilderSetLoopVectorize_def
      LLVMPY_PassManagerBuilderGetSLPVectorize_def LLVMPY_PassManagerBuilderSetSLPVectorize_def
      LLVMPY_PassManagerBuilderGetDisableUnrollLoops_def
      LLVMPY_PassManagerBuilderSetDisableUnrollLoops_def
      LLVMPassManagerBuilderSetDisableUnrollLoops_def int_to_bool_def bool_to_int_def)

text \<open>Optimization level 3, SLP vectorize 1, and disable-unroll-loops set with 7.\<close>

theorem PassManagerBuilder_set_get_witness:
  "LLVMPY_PassManagerBuilderGetOptLevel
     (LLVMPY_PassManagerBuilderSetOptLevel
        \<lparr>OptLevel = 0, SizeLevel = 0, DisableUnrollLoops = False, LoopVectorize = False,
         SLPVectorize = False\<rparr> 3) = 3 \<and>
   LLVMPY_PassManagerBuilderGetSLPVectorize
     (LLVMPY_PassManagerBuilderSetSLPVectorize
        \<lparr>OptLevel = 0, SizeLevel = 0, DisableUnrollLoops = False, LoopVectorize = False,
         SLPVectorize = False\<rparr> 1) = 1 \<and>
   LLVMPY_PassManagerBuilderGetDisableUnrollLoops
     (LLVMPY_PassManagerBuilderSetDisableUnrollLoops
        \<lparr>OptLevel = 0, SizeLevel = 0, DisableUnrollLoops = False, LoopVectorize = False,
         SLPVectorize = False\<rparr> 7) = 1"
  using
    PassManagerBuilder_set_get
      [of "\<lparr>OptLevel = 0, SizeLevel = 0, DisableUnrollLoops = False, LoopVectorize = False,
            SLPVectorize = False\<rparr>" 3 1]
    PassManagerBuilder_set_get
      [of "\<lparr>OptLevel = 0, SizeLevel = 0, DisableUnrollLoops = False, LoopVectorize = False,
            SLPVectorize = False\<rparr>" 3 7]
  by simp


text \<open>
  The claim as it was stated fails for the toggles: loop vectorize set with 2 reads back
  as 1.
\<close>

theorem PassManagerBuilder_flag_roundtrip_counterexample:
  "LLVMPY_PassManagerBuilderGetLoopVectorize
     (LLVMPY_PassManagerBuilderSetLoopVectorize
        \<lparr>OptLevel = 0, SizeLevel = 0, DisableUnrollLoops = False, LoopVectorize = False,
         SLPVectorize = False\<rparr> 2) = 1 \<and>
   LLVMPY_PassManagerBuilderGetLoopVectorize
     (LLVMPY_PassManagerBuilderSetLoopVectorize
        \<lparr>OptLevel = 0, SizeLevel = 0, DisableUnrollLoops = False, LoopVectorize = False,
         SLPVectorize = False\<rparr> 2) \<noteq> 2"
  by (simp add: LLVMPY_PassManagerBuilderGetLoopVectorize_def
      LLVMPY_PassManagerBuilderSetLoopVectorize_def int_to_bool_def bool_to_int_def)

subsection \<open>Attributes\<close>

text \<open>
  Claim C8: for every attribute behind an attribute handle, exactly one of the four
  classification queries (type, int, enum, string) returns true.
\<close>

theorem Attribute_exactly_one_classification:
  "length (filter (\<lambda>query. query A)
      [LLVMPY_AttributeIsType, LLVMPY_AttributeIsInt, LLVMPY_AttributeIsEnum,
       LLVMPY_AttributeIsString]) = 1"
  by (cases "attr_kind A")
     (simp_all add: LLVMPY_AttributeIsType_def LLVMPY_AttributeIsInt_def
        LLVMPY_AttributeIsEnum_def LLVMPY_AttributeIsString_def isTypeAttribute_def
        isIntAttribute_def isEnumAttribute_def isStringAttribute_def)

text \<open>
  Claim C9: the lookup of an enum attribute kind returns 0 for a name that is not
  registered, and for a registered name the non-zero kind the registry holds for it.  The
  result depends on the registry and the name only, so every call with that name returns
  the same kind.  The length passed is within the name's buffer, and the registry holds
  no kind 0 (0 is the kind of no attribute).
\<close>

theorem GetEnumAttributeKindForName_sentinel_or_id:
  "len \<le> length name \<Longrightarrow> 0 \<notin> snd ` set table \<Longrightarrow>
   (take len name \<notin> fst ` set table \<longrightarrow>
      LLVMPY_GetEnumAttributeKindForName table name len = Returns 0) \<and>
   (take len name \<in> fst ` set table \<longrightarrow>
      (\<exists>kind. kind \<noteq> 0 \<and> map_of table (take len name) = Some kind \<and>
              LLVMPY_GetEnumAttributeKindForName table name len = Returns kind))"
proof (intro conjI impI)
  assume len: "len \<le> length name" and "take len name \<notin> fst ` set table"
  then have "map_of table (take len name) = None"
    by (simp add: map_of_eq_None_iff)
  with len show "LLVMPY_GetEnumAttributeKindForName table name len = Returns 0"
    by (simp add: LLVMPY_GetEnumAttributeKindForName_def LLVMGetEnumAttributeKindForName_def)
next
  assume len: "len \<le> length name" and nz: "0 \<notin> snd ` set table"
    and reg: "take len name \<in> fst ` set table"
  from reg obtain kind where k: "map_of table (take len name) = Some kind"
    by (cases "map_of table (take len name)") (auto simp: map_of_eq_None_iff)
  then have "(take len name, kind) \<in> set table"
    by (rule map_of_SomeD)
  then have "kind \<in> snd ` set table"
    by force
  with nz have "kind \<noteq> 0"
    by auto
  moreover from len k have "LLVMPY_GetEnumAttributeKindForName table name len = Returns kind"
    by (simp add: LLVMPY_GetEnumAttributeKindForName_def LLVMGetEnumAttributeKindForName_def)
  ultimately show "\<exists>kind. kind \<noteq> 0 \<and> map_of table (take len name) = Some kind \<and>
      LLVMPY_GetEnumAttributeKindForName table name len = Returns kind"
    using k by blast
qed

text \<open>A registry of two names, asked for a name it does not hold and for \<open>nonnull\<close>.\<close>

theorem GetEnumAttributeKindForName_sentinel_or_id_witness:
  "LLVMPY_GetEnumAttributeKindForName [(''noinline'', 27), (''nonnull'', 40)] ''no_such_attr'' 12 =
     Returns 0 \<and>
   LLVMPY_GetEnumAttributeKindForName [(''noinline'', 27), (''nonnull'', 40)] ''nonnull'' 7 =
     Returns 40 \<and>
   (40 :: 32 word) \<noteq> 0"
  using
    GetEnumAttributeKindForName_sentinel_or_id
      [of 12 "''no_such_attr''" "[(''noinline'', 27), (''nonnull'', 40)]"]
    GetEnumAttributeKindForName_sentinel_or_id
      [of 7 "''nonnull''" "[(''noinline'', 27), (''nonnull'', 40)]"]
  by simp

subsection \<open>Cursors at their end\<close>

text \<open>
  Claim C10: a list-level or set-level cursor whose current position equals its end
  position returns null from the advance operation and is left as it was; so do any
  number of further calls.
\<close>

theorem IterNext_at_end_is_idempotent:
  "(list_cur li = list_end li \<longrightarrow>
      LLVMPY_AttributeListIterNext li = Returns (None, li) \<and>
      repeat_calls LLVMPY_AttributeListIterNext n li = Returns (replicate n None, li)) \<and>
   (set_cur si = set_end si \<longrightarrow>
      LLVMPY_AttributeSetIterNext si = Returns (None, si) \<and>
      repeat_calls LLVMPY_AttributeSetIterNext n si = Returns (replicate n None, si))"
  by (simp add: list_iter_at_end set_iter_at_end repeat_calls_fixed)

text \<open>Three calls on an exhausted cursor of either level.\<close>

theorem IterNext_at_end_is_idempotent_witness:
  "repeat_calls LLVMPY_AttributeListIterNext 3 \<lparr>list_cur = ([[]], 1), list_end = ([[]], 1)\<rparr> =
     Returns ([None, None, None], \<lparr>list_cur = ([[]], 1), list_end = ([[]], 1)\<rparr>) \<and>
   repeat_calls LLVMPY_AttributeSetIterNext 3
       \<lparr>set_cur = ([\<lparr>attr_kind = EnumKind, attr_string = ''nonnull''\<rparr>], 1),
        set_end = ([\<lparr>attr_kind = EnumKind, attr_string = ''nonnull''\<rparr>], 1)\<rparr> =
     Returns ([None, None, None],
       \<lparr>set_cur = ([\<lparr>attr_kind = EnumKind, attr_string = ''nonnull''\<rparr>], 1),
        set_end = ([\<lparr>attr_kind = EnumKind, attr_string = ''nonnull''\<rparr>], 1)\<rparr>)"
  using IterNext_at_end_is_idempotent
    [of "\<lparr>list_cur = ([[]], 1), list_end = ([[]], 1)\<rparr>" 3
        "\<lparr>set_cur = ([\<lparr>attr_kind = EnumKind, attr_string = ''nonnull''\<rparr>], 1),
          set_end = ([\<lparr>attr_kind = EnumKind, attr_string = ''nonnull''\<rparr>], 1)\<rparr>"]
  by (simp add: numeral_3_eq_3 del: repeat_calls.simps)

end
